theory Spec2Isabelle
  imports Complex_Main "HOL-Library.Sublist"
begin

section \<open>Data model of the SketchUp importer\<close>

text \<open>
  The development embeds the class \<open>SceneImporter\<close> of
  \<^verbatim>\<open>sketchup_importer/__init__.py\<close>. Python floats are taken as reals,
  a 4x4 \<open>Matrix\<close> as its four rows. An exception of the source is a value
  \<open>Inl e\<close>; \<open>RecursionError\<close> is what Python raises when the call depth of the
  recursive tree walks exceeds the interpreter's limit, which the walks below
  take as their first argument.
\<close>

datatype error = KeyError | IndexError | AttributeError | RecursionError

type_synonym vec3 = "real \<times> real \<times> real"
type_synonym uv = "real \<times> real"
type_synonym quat = "real \<times> real \<times> real \<times> real"
type_synonym vec4 = "real \<times> real \<times> real \<times> real"
type_synonym matrix = "vec4 \<times> vec4 \<times> vec4 \<times> vec4"
type_synonym key = "string \<times> string"

text \<open>
  A face as the importer reads it: its material (by name), its tessellation
  \<open>f.tessfaces = (vs, tri, uvs)\<close> and, for every bounding edge, the answer of
  \<open>edge.GetSmooth()\<close>.
\<close>

record Face =
  f_material :: "string option"
  f_vs :: "vec3 list"
  f_tri :: "(nat \<times> nat \<times> nat) list"
  f_uvs :: "uv list"
  f_edges :: "bool list"

text \<open>
  An instance names its definition (\<open>instance.definition.name\<close>); the
  importer finds the definition again through \<open>self.skp_components\<close>.
\<close>

record Instance =
  i_definition_name :: string
  i_transform :: matrix
  i_material :: "string option"
  i_name :: string
  i_hidden :: bool
  i_layer :: string

datatype Entities =
  Entities (groups: "Group list") (instances: "Instance list") (faces: "Face list")
and Group =
  Group (g_name: string) (g_transform: matrix) (g_material: "string option")
    (g_hidden: bool) (g_layer: string) (g_entities: Entities)

record ComponentDefinition =
  cd_name :: string
  cd_entities :: Entities

datatype EntityType = ET_none | ET_group | ET_component | ET_outer

subsection \<open>The scene graph sink\<close>

record BMaterial =
  bm_name :: string
  bm_nodes :: "string list option"

record Mesh =
  me_id :: nat
  me_name :: string
  me_materials :: "string list"
  me_vertices :: "vec3 list"
  me_loops :: "nat list"
  me_loop_start :: "nat list"
  me_loop_total :: "nat list"
  me_material_index :: "nat list"
  me_use_smooth :: "bool list"
  me_uv :: "uv list option"

record Camera =
  cam_name :: string
  cam_type :: string
  cam_angle :: "real option"
  cam_clip_end :: real

datatype ObjectData = NoData | MeshData Mesh | CameraData Camera

record BObject =
  ob_name :: string
  ob_data :: ObjectData
  ob_matrix_world :: matrix
  ob_parent :: "string option"
  ob_hide :: bool
  ob_instance_type :: string
  ob_instance_collection :: "nat option"
  ob_location :: "vec3 option"
  ob_scale :: "vec3 option"
  ob_rotation_quaternion :: "quat option"

record BCollection =
  coll_name :: string
  coll_objects :: "string list"

text \<open>
  Functions of the module \<open>SKPutil\<close> and of the sink that the importer calls
  but whose code is not part of the sources at hand: they are parameters.
  \<open>unique_name\<close> is the name the sink gives a new datablock, from the names
  in use and the name asked for; \<open>decompose\<close> is \<open>Matrix.decompose\<close>, giving
  location, rotation and scale.
\<close>

record Externals =
  group_name :: "string \<Rightarrow> string \<Rightarrow> string"
  group_safe_name :: "string \<Rightarrow> string"
  unique_name :: "string list \<Rightarrow> string \<Rightarrow> string"
  decompose :: "matrix \<Rightarrow> vec3 \<times> quat \<times> vec3"

datatype skip_value = SkipTrue | SkipEntities Entities

text \<open>
  The import session: the fields of \<open>self\<close> that the modelled methods read
  or write, followed by the part of \<open>bpy.data\<close> and of the active collection
  they write into. The dictionaries that are iterated over
  (\<open>component_stats\<close>, \<open>component_depth\<close>) are association lists in
  insertion order.
\<close>

record SceneImporter =
  layers_skip :: "string list"
  max_instance :: int
  reuse_group :: bool
  aspect_ratio :: real
  camera_far_plane :: real
  skp_entities :: Entities
  skp_components :: "(string \<times> ComponentDefinition) list"
  component_depth :: "(string \<times> int) list"
  materials :: "(string \<times> BMaterial) list"
  component_stats :: "(key \<times> (matrix list)) list"
  component_skip :: "key \<rightharpoonup> skip_value"
  group_written :: "key \<rightharpoonup> nat"
  component_meshes :: "key \<rightharpoonup> (Mesh \<times> bool)"
  bpy_meshes :: "Mesh list"
  bpy_objects :: "BObject list"
  bpy_collections :: "BCollection list"
  context_collection :: "string list"

subsection \<open>Helpers of the module SKPutil\<close>

text \<open>
  Modelled from the spec: \<open>inherent_default_mat\<close> of the module \<open>SKPutil\<close>,
  which is not among the sources. The effective material of a node is its own
  explicit override, else the one inherited from its parent.
\<close>

definition inherent_default_mat :: "string option \<Rightarrow> string \<Rightarrow> string" where
  "inherent_default_mat mat default_material =
     (case mat of None \<Rightarrow> default_material | Some m \<Rightarrow> m)"

text \<open>
  Modelled from the spec: \<open>keep_offset\<close> of the module \<open>SKPutil\<close>, which is
  not among the sources. Each distinct key is given a stable integer slot in
  first-seen order; the table is the list of its keys in that order and
  \<open>ko_getitem\<close> is a subscription \<open>table[k]\<close>, which enters an unseen key.
\<close>

fun index_of :: "'a \<Rightarrow> 'a list \<Rightarrow> nat option" where
  "index_of x [] = None"
| "index_of x (y # ys) = (if x = y then Some 0 else map_option Suc (index_of x ys))"

definition ko_getitem :: "'a list \<Rightarrow> 'a \<Rightarrow> nat \<times> 'a list" where
  "ko_getitem table k =
     (case index_of k table of
        Some n \<Rightarrow> (n, table)
      | None \<Rightarrow> (length table, table @ [k]))"

text \<open>
  A \<open>proxy_dict\<close> is subscripted where the source then tests the result for
  truth (\<open>if comp_def and ...\<close>): a missing key gives \<open>None\<close>.
\<close>

definition proxy_getitem :: "('k \<times> 'v) list \<Rightarrow> 'k \<Rightarrow> 'v option" where
  "proxy_getitem d k = map_of d k"

text \<open>\<open>d[k].append(x)\<close> on a \<open>defaultdict(list)\<close>, and the read \<open>d[k]\<close>.\<close>

fun dd_append :: "'k \<Rightarrow> 'v \<Rightarrow> ('k \<times> 'v list) list \<Rightarrow> ('k \<times> 'v list) list" where
  "dd_append k x [] = [(k, [x])]"
| "dd_append k x ((k', v) # rest) =
     (if k = k' then (k', v @ [x]) # rest else (k', v) # dd_append k x rest)"

definition dd_getitem :: "('k \<times> 'v list) list \<Rightarrow> 'k \<Rightarrow> 'v list" where
  "dd_getitem d k = (case map_of d k of None \<Rightarrow> [] | Some v \<Rightarrow> v)"

type_synonym stats = "(key \<times> matrix list) list"

subsection \<open>Matrices and vectors\<close>

definition mat_identity :: matrix where
  "mat_identity = ((1, 0, 0, 0), (0, 1, 0, 0), (0, 0, 1, 0), (0, 0, 0, 1))"

definition row_list :: "vec4 \<Rightarrow> real list" where
  "row_list r = (case r of (a, b, c, d) \<Rightarrow> [a, b, c, d])"

definition mat_col :: "matrix \<Rightarrow> nat \<Rightarrow> real list" where
  "mat_col M j = (case M of (r0, r1, r2, r3) \<Rightarrow> map (\<lambda>r. row_list r ! j) [r0, r1, r2, r3])"

definition dot :: "real list \<Rightarrow> real list \<Rightarrow> real" where
  "dot xs ys = sum_list (map2 (*) xs ys)"

definition mul_row :: "vec4 \<Rightarrow> matrix \<Rightarrow> vec4" where
  "mul_row r B =
     (dot (row_list r) (mat_col B 0), dot (row_list r) (mat_col B 1),
      dot (row_list r) (mat_col B 2), dot (row_list r) (mat_col B 3))"

text \<open>The product \<open>A @ B\<close>.\<close>

definition mat_mul :: "matrix \<Rightarrow> matrix \<Rightarrow> matrix" where
  "mat_mul A B =
     (case A of (r0, r1, r2, r3) \<Rightarrow> (mul_row r0 B, mul_row r1 B, mul_row r2 B, mul_row r3 B))"

text \<open>\<open>ob.location\<close> of an object whose \<open>matrix_world\<close> is \<open>M\<close>.\<close>

definition mat_translation :: "matrix \<Rightarrow> vec3" where
  "mat_translation M =
     (case M of ((_, _, _, x), (_, _, _, y), (_, _, _, z), _) \<Rightarrow> (x, y, z))"

definition vec_sub :: "vec3 \<Rightarrow> vec3 \<Rightarrow> vec3" where
  "vec_sub a b = (case (a, b) of ((a0, a1, a2), (b0, b1, b2)) \<Rightarrow> (a0 - b0, a1 - b1, a2 - b2))"

definition cross :: "vec3 \<Rightarrow> vec3 \<Rightarrow> vec3" where
  "cross a b =
     (case (a, b) of ((a0, a1, a2), (b0, b1, b2)) \<Rightarrow>
        (a1 * b2 - a2 * b1, a2 * b0 - a0 * b2, a0 * b1 - a1 * b0))"

definition normalize :: "vec3 \<Rightarrow> vec3" where
  "normalize a =
     (case a of (a0, a1, a2) \<Rightarrow>
        (let l = sqrt (a0 * a0 + a1 * a1 + a2 * a2)
         in if l = 0 then a else (a0 / l, a1 / l, a2 / l)))"

section \<open>write_mesh_data\<close>

record mesh_acc =
  acc_verts :: "vec3 list"
  acc_loops_vert_idx :: "nat list"
  acc_mat_index :: "nat list"
  acc_smooth :: "bool list"
  acc_mats :: "string list"
  acc_seen :: "vec3 list"
  acc_uv_list :: "(uv \<times> uv \<times> uv) list"

definition wmd_init :: mesh_acc where
  "wmd_init = \<lparr>acc_verts = [], acc_loops_vert_idx = [], acc_mat_index = [],
     acc_smooth = [], acc_mats = [], acc_seen = [], acc_uv_list = []\<rparr>"

text \<open>
  \<^verbatim>\<open>for i, (v, uv) in enumerate(zip(vs, uvs))\<close>: the body appends to \<open>uvs\<close>,
  the list the \<open>zip\<close> is reading, so the loop ends with \<open>vs\<close> unless \<open>uvs\<close> was
  empty. \<open>mapping\<close> has the keys \<open>0..i-1\<close> and is the list of its values.
\<close>

fun wmd_vertices ::
  "vec3 list \<Rightarrow> nat \<Rightarrow> uv list \<Rightarrow> vec3 list \<Rightarrow> vec3 list \<Rightarrow> nat list
    \<Rightarrow> uv list \<times> vec3 list \<times> vec3 list \<times> nat list" where
  "wmd_vertices [] i uvs seen verts mapping = (uvs, seen, verts, mapping)"
| "wmd_vertices (v # vs) i uvs seen verts mapping =
     (if i < length uvs then
        (let uv = uvs ! i;
             l = length seen;
             (n, seen') = ko_getitem seen v;
             verts' = (if length seen' > l then verts @ [v] else verts)
         in wmd_vertices vs (Suc i) (uvs @ [uv]) seen' verts' (mapping @ [n]))
      else (uvs, seen, verts, mapping))"

text \<open>\<^verbatim>\<open>for face in tri\<close>: a triangle index outside \<open>mapping\<close> is a \<open>KeyError\<close>.\<close>

fun wmd_triangles ::
  "(nat \<times> nat \<times> nat) list \<Rightarrow> nat list \<Rightarrow> uv list \<Rightarrow> bool \<Rightarrow> nat \<Rightarrow> mesh_acc
    \<Rightarrow> error + mesh_acc" where
  "wmd_triangles [] mapping uvs smooth_edge mat_number acc = Inr acc"
| "wmd_triangles ((f0, f1, f2) # tri) mapping uvs smooth_edge mat_number acc =
     (if \<not> (f2 < length mapping \<and> f0 < length mapping \<and> f1 < length mapping)
      then Inl KeyError
      else if \<not> (f2 < length uvs \<and> f0 < length uvs \<and> f1 < length uvs)
      then Inl IndexError
      else
        (let acc1 =
           (if mapping ! f2 = 0 then
              acc\<lparr>acc_loops_vert_idx := acc_loops_vert_idx acc
                     @ [mapping ! f2, mapping ! f0, mapping ! f1],
                  acc_uv_list := acc_uv_list acc @ [(uvs ! f2, uvs ! f0, uvs ! f1)]\<rparr>
            else
              acc\<lparr>acc_loops_vert_idx := acc_loops_vert_idx acc
                     @ [mapping ! f0, mapping ! f1, mapping ! f2],
                  acc_uv_list := acc_uv_list acc @ [(uvs ! f0, uvs ! f1, uvs ! f2)]\<rparr>)
         in wmd_triangles tri mapping uvs smooth_edge mat_number
              (acc1\<lparr>acc_smooth := acc_smooth acc1 @ [smooth_edge],
                    acc_mat_index := acc_mat_index acc1 @ [mat_number]\<rparr>)))"

text \<open>
  \<^verbatim>\<open>for f in entities.faces\<close>. The assignment to \<open>f.st_scale\<close> acts on the
  texture coordinates that the reader hands out; the face carries them as they
  are read.
\<close>

fun wmd_faces :: "string \<Rightarrow> Face list \<Rightarrow> mesh_acc \<Rightarrow> error + mesh_acc" where
  "wmd_faces default_material [] acc = Inr acc"
| "wmd_faces default_material (f # fs) acc =
     (let (mat_number, mats') =
            (case f_material f of
               Some m \<Rightarrow> ko_getitem (acc_mats acc) m
             | None \<Rightarrow> ko_getitem (acc_mats acc) default_material);
          (uvs, seen', verts', mapping) =
            wmd_vertices (f_vs f) 0 (f_uvs f) (acc_seen acc) (acc_verts acc) [];
          smooth_edge = (True \<in> set (f_edges f))
      in case wmd_triangles (f_tri f) mapping uvs smooth_edge mat_number
                (acc\<lparr>acc_mats := mats', acc_seen := seen', acc_verts := verts'\<rparr>) of
           Inl e \<Rightarrow> Inl e
         | Inr acc' \<Rightarrow> wmd_faces default_material fs acc')"

text \<open>
  The loop over the material slots: \<open>self.materials[k]\<close> with the fallback
  \<open>self.materials['Material']\<close>; a material without a node tree is the
  \<open>AttributeError\<close> that resets \<open>uvs_used\<close>.
\<close>

fun wmd_materials ::
  "(string \<times> BMaterial) list \<Rightarrow> string list \<Rightarrow> string list \<Rightarrow> bool
    \<Rightarrow> error + (string list \<times> bool)" where
  "wmd_materials mts [] slots uvs_used = Inr (slots, uvs_used)"
| "wmd_materials mts (k # ks) slots uvs_used =
     (case (case map_of mts k of Some b \<Rightarrow> Some b | None \<Rightarrow> map_of mts ''Material'') of
        None \<Rightarrow> Inl KeyError
      | Some bmat \<Rightarrow>
          wmd_materials mts ks (slots @ [bm_name bmat])
            (case bm_nodes bmat of
               Some nodes \<Rightarrow> (if ''Image Texture'' \<in> set nodes then True else uvs_used)
             | None \<Rightarrow> False))"

definition write_mesh_data ::
  "Externals \<Rightarrow> Entities \<Rightarrow> string \<Rightarrow> string \<Rightarrow> SceneImporter
    \<Rightarrow> error + ((Mesh option \<times> bool) \<times> SceneImporter)" where
  "write_mesh_data X entities name default_material self =
     (let mesh_key = (name, default_material) in
      case component_meshes self mesh_key of
        Some (me, alpha) \<Rightarrow> Inr ((Some me, alpha), self)
      | None \<Rightarrow>
          (case wmd_faces default_material (faces entities) wmd_init of
             Inl e \<Rightarrow> Inl e
           | Inr acc \<Rightarrow>
               if length (acc_verts acc) = 0 then Inr ((None, False), self)
               else
                 (case (if length (acc_mats acc) \<ge> 1
                        then wmd_materials (materials self) (acc_mats acc) [] False
                        else Inr ([], False)) of
                    Inl e \<Rightarrow> Inl e
                  | Inr (slots, uvs_used) \<Rightarrow>
                      (let tri_face_count = length (acc_loops_vert_idx acc) div 3;
                           me = \<lparr>me_id = length (bpy_meshes self),
                                 me_name = unique_name X (map me_name (bpy_meshes self)) name,
                                 me_materials = slots,
                                 me_vertices = acc_verts acc,
                                 me_loops = acc_loops_vert_idx acc,
                                 me_loop_start = map (\<lambda>i. 3 * i) [0..<tri_face_count],
                                 me_loop_total = replicate tri_face_count 3,
                                 me_material_index = acc_mat_index acc,
                                 me_use_smooth = acc_smooth acc,
                                 me_uv = (if uvs_used
                                          then Some (concat (map (\<lambda>(a, b, c). [a, b, c])
                                                  (take tri_face_count (acc_uv_list acc))))
                                          else None)\<rparr>;
                           alpha = False
                       in Inr ((Some me, alpha),
                               self\<lparr>bpy_meshes := bpy_meshes self @ [me],
                                    component_meshes :=
                                      (component_meshes self)(mesh_key \<mapsto> (me, alpha))\<rparr>)))))"

section \<open>analyze_entities\<close>

text \<open>
  The two loops of \<open>analyze_entities\<close>; \<open>rec\<close> stands for the recursive call
  \<open>self.analyze_entities\<close>, \<open>cs\<close> for the dictionary \<open>component_stats\<close> that
  every call appends to, \<open>skip_list\<close> for the list that the parameter
  \<open>component_skip\<close> is bound to once its default is resolved.
\<close>

fun ae_groups ::
  "(Entities \<Rightarrow> string \<Rightarrow> matrix \<Rightarrow> string \<Rightarrow> EntityType \<Rightarrow> stats \<Rightarrow> key list option
      \<Rightarrow> error + stats)
    \<Rightarrow> SceneImporter \<Rightarrow> matrix \<Rightarrow> string \<Rightarrow> Group list \<Rightarrow> stats \<Rightarrow> error + stats" where
  "ae_groups rec self transform default_material [] cs = Inr cs"
| "ae_groups rec self transform default_material (g # gs) cs =
     (if layers_skip self \<noteq> [] \<and> g_layer g \<in> set (layers_skip self)
      then ae_groups rec self transform default_material gs cs
      else
        (case rec (g_entities g) (''G-'' @ g_name g) (mat_mul transform (g_transform g))
                (inherent_default_mat (g_material g) default_material) ET_group cs None of
           Inl e \<Rightarrow> Inl e
         | Inr cs' \<Rightarrow> ae_groups rec self transform default_material gs cs'))"

fun ae_instances ::
  "(Entities \<Rightarrow> string \<Rightarrow> matrix \<Rightarrow> string \<Rightarrow> EntityType \<Rightarrow> stats \<Rightarrow> key list option
      \<Rightarrow> error + stats)
    \<Rightarrow> SceneImporter \<Rightarrow> matrix \<Rightarrow> string \<Rightarrow> key list \<Rightarrow> Instance list \<Rightarrow> stats
    \<Rightarrow> error + stats" where
  "ae_instances rec self transform default_material skip_list [] cs = Inr cs"
| "ae_instances rec self transform default_material skip_list (inst # insts) cs =
     (if layers_skip self \<noteq> [] \<and> i_layer inst \<in> set (layers_skip self)
      then ae_instances rec self transform default_material skip_list insts cs
      else
        (let mat = inherent_default_mat (i_material inst) default_material in
         case proxy_getitem (skp_components self) (i_definition_name inst) of
           None \<Rightarrow> Inl AttributeError
         | Some cdef \<Rightarrow>
             if (cd_name cdef, mat) \<in> set skip_list
             then ae_instances rec self transform default_material skip_list insts cs
             else
               (case rec (cd_entities cdef) (cd_name cdef)
                       (mat_mul transform (i_transform inst)) mat ET_component cs None of
                  Inl e \<Rightarrow> Inl e
                | Inr cs' \<Rightarrow>
                    ae_instances rec self transform default_material skip_list insts cs')))"

definition analyze_entities_body ::
  "(Entities \<Rightarrow> string \<Rightarrow> matrix \<Rightarrow> string \<Rightarrow> EntityType \<Rightarrow> stats \<Rightarrow> key list option
      \<Rightarrow> error + stats)
    \<Rightarrow> SceneImporter \<Rightarrow> Entities \<Rightarrow> string \<Rightarrow> matrix \<Rightarrow> string \<Rightarrow> EntityType \<Rightarrow> stats
    \<Rightarrow> key list option \<Rightarrow> error + stats" where
  "analyze_entities_body rec self entities name transform default_material etype cs
       component_skip_arg =
     (let skip_list = (case component_skip_arg of None \<Rightarrow> [] | Some l \<Rightarrow> l);
          cs1 = (if etype = ET_component
                 then dd_append (name, default_material) transform cs else cs)
      in case ae_groups rec self transform default_material (groups entities) cs1 of
           Inl e \<Rightarrow> Inl e
         | Inr cs2 \<Rightarrow>
             ae_instances rec self transform default_material skip_list
               (instances entities) cs2)"

primrec analyze_entities ::
  "nat \<Rightarrow> SceneImporter \<Rightarrow> Entities \<Rightarrow> string \<Rightarrow> matrix \<Rightarrow> string \<Rightarrow> EntityType \<Rightarrow> stats
    \<Rightarrow> key list option \<Rightarrow> error + stats" where
  "analyze_entities 0 self entities name transform default_material etype cs
       component_skip_arg = Inl RecursionError"
| "analyze_entities (Suc n) self entities name transform default_material etype cs
       component_skip_arg =
     analyze_entities_body (analyze_entities n self) self entities name transform
       default_material etype cs component_skip_arg"

section \<open>write_entities\<close>

definition new_object :: "string \<Rightarrow> ObjectData \<Rightarrow> BObject" where
  "new_object nm d =
     \<lparr>ob_name = nm, ob_data = d, ob_matrix_world = mat_identity, ob_parent = None,
      ob_hide = False, ob_instance_type = ''NONE'', ob_instance_collection = None,
      ob_location = None, ob_scale = None, ob_rotation_quaternion = None\<rparr>"

definition object_names :: "SceneImporter \<Rightarrow> string list" where
  "object_names self = map ob_name (bpy_objects self)"

definition mesh_data :: "Mesh option \<Rightarrow> ObjectData" where
  "mesh_data me = (case me of None \<Rightarrow> NoData | Some m \<Rightarrow> MeshData m)"

type_synonym we_rec =
  "Entities \<Rightarrow> string \<Rightarrow> matrix \<Rightarrow> string \<Rightarrow> EntityType option \<Rightarrow> string option \<Rightarrow> vec3
    \<Rightarrow> SceneImporter \<Rightarrow> error + SceneImporter"

text \<open>
  \<^verbatim>\<open>for group in entities.groups\<close> of \<open>write_entities\<close>: \<open>ob_name\<close> is the
  name of the object just written, \<open>nested_location\<close> its location.
\<close>

fun we_groups ::
  "we_rec \<Rightarrow> Externals \<Rightarrow> matrix \<Rightarrow> string \<Rightarrow> string \<Rightarrow> vec3 \<Rightarrow> Group list
    \<Rightarrow> SceneImporter \<Rightarrow> error + SceneImporter" where
  "we_groups rec X parent_transform default_material obname nested_location [] self =
     Inr self"
| "we_groups rec X parent_transform default_material obname nested_location (g # gs) self =
     (if g_hidden g
      then we_groups rec X parent_transform default_material obname nested_location gs self
      else if layers_skip self \<noteq> [] \<and> g_layer g \<in> set (layers_skip self)
      then we_groups rec X parent_transform default_material obname nested_location gs self
      else
        (let temp_ob = new_object (unique_name X (object_names self) (g_name g)) NoData;
             self1 = self\<lparr>bpy_objects := bpy_objects self @ [temp_ob]\<rparr>;
             gname = ''G-'' @ group_safe_name X (ob_name temp_ob)
         in case rec (g_entities g) gname (mat_mul parent_transform (g_transform g))
                   (inherent_default_mat (g_material g) default_material)
                   (Some ET_group) (Some obname) nested_location self1 of
              Inl e \<Rightarrow> Inl e
            | Inr self2 \<Rightarrow>
                we_groups rec X parent_transform default_material obname nested_location
                  gs self2))"

text \<open>
  \<^verbatim>\<open>for instance in entities.instances\<close> of \<open>write_entities\<close>; \<open>we_cname\<close>
  is the name \<open>cname\<close> it gives the component.
\<close>

definition we_cname :: "Instance \<Rightarrow> ComponentDefinition \<Rightarrow> string" where
  "we_cname inst cdef =
     (if i_name inst = [] then ''C-'' @ cd_name cdef
      else i_name inst @ '' (C-'' @ cd_name cdef @ '')'')"

fun we_instances ::
  "we_rec \<Rightarrow> Externals \<Rightarrow> matrix \<Rightarrow> string \<Rightarrow> string \<Rightarrow> vec3 \<Rightarrow> Instance list
    \<Rightarrow> SceneImporter \<Rightarrow> error + SceneImporter" where
  "we_instances rec X parent_transform default_material obname nested_location [] self =
     Inr self"
| "we_instances rec X parent_transform default_material obname nested_location
       (inst # insts) self =
     (if i_hidden inst
      then we_instances rec X parent_transform default_material obname nested_location
             insts self
      else if layers_skip self \<noteq> [] \<and> i_layer inst \<in> set (layers_skip self)
      then we_instances rec X parent_transform default_material obname nested_location
             insts self
      else
        (let mat_name = inherent_default_mat (i_material inst) default_material in
         case proxy_getitem (skp_components self) (i_definition_name inst) of
           None \<Rightarrow> Inl AttributeError
         | Some cdef \<Rightarrow>
             (let cname = we_cname inst cdef
              in case rec (cd_entities cdef) cname
                        (mat_mul parent_transform (i_transform inst)) mat_name
                        (Some ET_component) (Some obname) nested_location self of
                   Inl e \<Rightarrow> Inl e
                 | Inr self2 \<Rightarrow>
                     we_instances rec X parent_transform default_material obname
                       nested_location insts self2)))"

text \<open>
  The part of \<open>write_entities\<close> between the mesh and the two loops: the object
  for the node (\<open>we_ob\<close>) and, beside an empty that holds children, the object
  for its loose geometry (\<open>we_loose\<close>). \<open>we_objects\<close> gives the session, the
  name of the node's object and its location. \<open>show_transparent\<close> is not kept: the test \<open>0.01 < alpha < 1.0\<close>
  fails for both truth values.
\<close>

definition we_leaf :: "Entities \<Rightarrow> string \<Rightarrow> bool" where
  "we_leaf entities name =
     (length (groups entities) + length (instances entities) = 0
      \<or> name = ''_(Loose Entity)'')"

definition we_loose ::
  "Externals \<Rightarrow> Entities \<Rightarrow> string \<Rightarrow> matrix \<Rightarrow> Mesh option \<Rightarrow> SceneImporter
    \<Rightarrow> BObject list" where
  "we_loose X entities name parent_transform me self =
     (let obname = unique_name X (object_names self) name
      in if \<not> we_leaf entities name \<and> me \<noteq> None
         then [(new_object
                  (unique_name X (object_names self @ [obname])
                     (''_'' @ name @ '' (Loose Mesh)''))
                  (mesh_data me))
                \<lparr>ob_matrix_world := parent_transform,
                 ob_parent := Some obname,
                 ob_location := Some (0, 0, 0)\<rparr>]
         else [])"

text \<open>\<open>bpy.data.objects[parent_name]\<close>, where the source parents the object.\<close>

definition we_parent :: "string option \<Rightarrow> string list \<Rightarrow> error + string option" where
  "we_parent parent_name names =
     (case parent_name of
        None \<Rightarrow> Inr None
      | Some p \<Rightarrow>
          if p \<noteq> ''_(Loose Entity)''
          then (if p \<in> set names then Inr (Some p) else Inl KeyError)
          else Inr None)"

definition we_ob ::
  "Externals \<Rightarrow> Entities \<Rightarrow> string \<Rightarrow> matrix \<Rightarrow> string option \<Rightarrow> vec3 \<Rightarrow> Mesh option
    \<Rightarrow> SceneImporter \<Rightarrow> BObject" where
  "we_ob X entities name parent_transform parent parent_location me self =
     (let nested_count = length (groups entities) + length (instances entities);
          hide_empty = (\<not> we_leaf entities name);
          nested_location = mat_translation parent_transform
      in (new_object (unique_name X (object_names self) name)
            (if we_leaf entities name then mesh_data me else NoData))
           \<lparr>ob_matrix_world := parent_transform,
            ob_parent := parent,
            ob_location :=
              Some (case parent of
                      None \<Rightarrow> nested_location
                    | Some p \<Rightarrow> vec_sub nested_location parent_location),
            ob_rotation_quaternion :=
              (if nested_count > 0 then Some (1, 0, 0, 0) else None),
            ob_scale := (if nested_count > 0 then Some (1, 1, 1) else None),
            ob_hide := hide_empty\<rparr>)"

definition we_objects ::
  "Externals \<Rightarrow> Entities \<Rightarrow> string \<Rightarrow> matrix \<Rightarrow> string option \<Rightarrow> vec3 \<Rightarrow> Mesh option
    \<Rightarrow> SceneImporter \<Rightarrow> error + (SceneImporter \<times> string \<times> vec3)" where
  "we_objects X entities name parent_transform parent_name parent_location me self =
     (let obname = unique_name X (object_names self) name;
          nested_location = mat_translation parent_transform;
          loose = we_loose X entities name parent_transform me self;
          names = object_names self @ [obname] @ map ob_name loose
      in case we_parent parent_name names of
           Inl e \<Rightarrow> Inl e
         | Inr parent \<Rightarrow>
             Inr (self\<lparr>bpy_objects := bpy_objects self
                           @ [we_ob X entities name parent_transform parent
                                parent_location me self] @ loose,
                        context_collection :=
                          context_collection self @ map ob_name loose @ [obname]\<rparr>,
                  obname, nested_location))"

definition write_entities_body ::
  "we_rec \<Rightarrow> Externals \<Rightarrow> Entities \<Rightarrow> string \<Rightarrow> matrix \<Rightarrow> string \<Rightarrow> EntityType option
    \<Rightarrow> string option \<Rightarrow> vec3 \<Rightarrow> SceneImporter \<Rightarrow> error + SceneImporter" where
  "write_entities_body rec X entities name parent_transform default_material etype
       parent_name parent_location self =
     (if etype = Some ET_component \<and> (name, default_material) \<in> dom (component_skip self)
      then Inr (self\<lparr>component_stats :=
                  dd_append (name, default_material) parent_transform
                    (component_stats self)\<rparr>)
      else
        (case write_mesh_data X entities name default_material self of
           Inl e \<Rightarrow> Inl e
         | Inr ((me, alpha), self1) \<Rightarrow>
             (case we_objects X entities name parent_transform parent_name
                     parent_location me self1 of
                Inl e \<Rightarrow> Inl e
              | Inr (self2, obname, nested_location) \<Rightarrow>
                  (case we_groups rec X parent_transform default_material obname
                          nested_location (groups entities) self2 of
                     Inl e \<Rightarrow> Inl e
                   | Inr self3 \<Rightarrow>
                       we_instances rec X parent_transform default_material obname
                         nested_location (instances entities) self3))))"

primrec write_entities ::
  "nat \<Rightarrow> Externals \<Rightarrow> Entities \<Rightarrow> string \<Rightarrow> matrix \<Rightarrow> string \<Rightarrow> EntityType option
    \<Rightarrow> string option \<Rightarrow> vec3 \<Rightarrow> SceneImporter \<Rightarrow> error + SceneImporter" where
  "write_entities 0 X entities name parent_transform default_material etype
       parent_name parent_location self = Inl RecursionError"
| "write_entities (Suc n) X entities name parent_transform default_material etype
       parent_name parent_location self =
     write_entities_body (write_entities n X) X entities name parent_transform
       default_material etype parent_name parent_location self"

section \<open>Components as groups\<close>

text \<open>
  \<open>instance_object_or_group\<close> gives the new object; its caller sets the
  remaining attributes and the object then enters \<open>bpy.data.objects\<close>.
\<close>

definition instance_object_or_group ::
  "Externals \<Rightarrow> string \<Rightarrow> string \<Rightarrow> SceneImporter \<Rightarrow> error + BObject" where
  "instance_object_or_group X name default_material self =
     (case group_written self (name, default_material) of
        Some grp \<Rightarrow>
          Inr ((new_object (unique_name X (object_names self) name) NoData)
                 \<lparr>ob_instance_type := ''COLLECTION'', ob_instance_collection := Some grp\<rparr>)
      | None \<Rightarrow>
          (case component_meshes self (name, default_material) of
             None \<Rightarrow> Inl KeyError
           | Some (me, alpha) \<Rightarrow>
               Inr (new_object (unique_name X (object_names self) name) (MeshData me))))"

text \<open>\<open>self.context.collection.objects.link(ob)\<close> and \<open>group.objects.link(ob)\<close>.\<close>

definition link_to_group :: "BObject \<Rightarrow> nat \<Rightarrow> SceneImporter \<Rightarrow> SceneImporter" where
  "link_to_group ob grp self =
     self\<lparr>bpy_objects := bpy_objects self @ [ob],
          context_collection := context_collection self @ [ob_name ob],
          bpy_collections :=
            (if grp < length (bpy_collections self)
             then (bpy_collections self)
                    [grp := (bpy_collections self ! grp)
                       \<lparr>coll_objects :=
                          coll_objects (bpy_collections self ! grp) @ [ob_name ob]\<rparr>]
             else bpy_collections self)\<rparr>"

type_synonym cdag_rec =
  "Entities \<Rightarrow> string \<Rightarrow> matrix \<Rightarrow> string \<Rightarrow> EntityType option \<Rightarrow> nat
    \<Rightarrow> SceneImporter \<Rightarrow> error + SceneImporter"

fun cdag_groups ::
  "cdag_rec \<Rightarrow> matrix \<Rightarrow> string \<Rightarrow> nat \<Rightarrow> Group list \<Rightarrow> SceneImporter
    \<Rightarrow> error + SceneImporter" where
  "cdag_groups rec parent_transform default_material grp [] self = Inr self"
| "cdag_groups rec parent_transform default_material grp (g # gs) self =
     (if layers_skip self \<noteq> [] \<and> g_layer g \<in> set (layers_skip self)
      then cdag_groups rec parent_transform default_material grp gs self
      else
        (case rec (g_entities g) (''G-'' @ g_name g)
                (mat_mul parent_transform (g_transform g))
                (inherent_default_mat (g_material g) default_material)
                (Some ET_group) grp self of
           Inl e \<Rightarrow> Inl e
         | Inr self' \<Rightarrow> cdag_groups rec parent_transform default_material grp gs self'))"

fun cdag_instances ::
  "cdag_rec \<Rightarrow> matrix \<Rightarrow> string \<Rightarrow> nat \<Rightarrow> Instance list \<Rightarrow> SceneImporter
    \<Rightarrow> error + SceneImporter" where
  "cdag_instances rec parent_transform default_material grp [] self = Inr self"
| "cdag_instances rec parent_transform default_material grp (inst # insts) self =
     (if layers_skip self \<noteq> [] \<and> i_layer inst \<in> set (layers_skip self)
      then cdag_instances rec parent_transform default_material grp insts self
      else
        (case proxy_getitem (skp_components self) (i_definition_name inst) of
           None \<Rightarrow> Inl AttributeError
         | Some cdef \<Rightarrow>
             (case rec (cd_entities cdef) (cd_name cdef)
                     (mat_mul parent_transform (i_transform inst))
                     (inherent_default_mat (i_material inst) default_material)
                     (Some ET_component) grp self of
                Inl e \<Rightarrow> Inl e
              | Inr self' \<Rightarrow>
                  cdag_instances rec parent_transform default_material grp insts self')))"

definition component_def_as_group_body ::
  "cdag_rec \<Rightarrow> Externals \<Rightarrow> Entities \<Rightarrow> string \<Rightarrow> matrix \<Rightarrow> string \<Rightarrow> EntityType option
    \<Rightarrow> nat \<Rightarrow> SceneImporter \<Rightarrow> error + SceneImporter" where
  "component_def_as_group_body rec X entities name parent_transform default_material
       etype grp self =
     (if etype = Some ET_outer \<and> (name, default_material) \<in> dom (component_skip self)
      then Inr self
      else
        (let self1 =
               (if etype = Some ET_outer
                then self\<lparr>component_skip :=
                       (component_skip self)((name, default_material) \<mapsto> SkipTrue)\<rparr>
                else self)
         in if etype = Some ET_component
               \<and> (name, default_material) \<in> dom (component_skip self1)
            then
              (case instance_object_or_group X name default_material self1 of
                 Inl e \<Rightarrow> Inl e
               | Inr ob \<Rightarrow>
                   Inr (link_to_group (ob\<lparr>ob_matrix_world := parent_transform\<rparr>) grp self1))
            else
              (case write_mesh_data X entities name default_material self1 of
                 Inl e \<Rightarrow> Inl e
               | Inr ((me, alpha), self2) \<Rightarrow>
                   (let self3 =
                          (case me of
                             None \<Rightarrow> self2
                           | Some m \<Rightarrow>
                               link_to_group
                                 ((new_object (unique_name X (object_names self2) name)
                                     (MeshData m))
                                    \<lparr>ob_matrix_world := parent_transform\<rparr>) grp self2)
                    in case cdag_groups rec parent_transform default_material grp
                              (groups entities) self3 of
                         Inl e \<Rightarrow> Inl e
                       | Inr self4 \<Rightarrow>
                           cdag_instances rec parent_transform default_material grp
                             (instances entities) self4))))"

primrec component_def_as_group ::
  "nat \<Rightarrow> Externals \<Rightarrow> Entities \<Rightarrow> string \<Rightarrow> matrix \<Rightarrow> string \<Rightarrow> EntityType option
    \<Rightarrow> nat \<Rightarrow> SceneImporter \<Rightarrow> error + SceneImporter" where
  "component_def_as_group 0 X entities name parent_transform default_material etype
       grp self = Inl RecursionError"
| "component_def_as_group (Suc n) X entities name parent_transform default_material etype
       grp self =
     component_def_as_group_body (component_def_as_group n X) X entities name
       parent_transform default_material etype grp self"

section \<open>write_duplicateable_groups\<close>

text \<open>\<open>max(self.component_depth.values(), default=0)\<close>.\<close>

definition max_depth_of :: "(string \<times> int) list \<Rightarrow> int" where
  "max_depth_of cd = (case map snd cd of [] \<Rightarrow> 0 | d # ds \<Rightarrow> fold max ds d)"

text \<open>The dictionary comprehension that keeps the pairs at or over the threshold.\<close>

definition wdg_filter :: "int \<Rightarrow> stats \<Rightarrow> stats" where
  "wdg_filter instance_when_over cs =
     filter (\<lambda>(k, v). int (length v) \<ge> instance_when_over) cs"

text \<open>
  The body of the inner loop for one pair \<open>(name, mat)\<close> at level \<open>i\<close>; the
  walks called from here run one call deeper than \<open>write_duplicateable_groups\<close>
  and have the depth \<open>n\<close> left.
\<close>

definition wdg_pair ::
  "nat \<Rightarrow> Externals \<Rightarrow> int \<Rightarrow> key \<Rightarrow> SceneImporter \<Rightarrow> error + SceneImporter" where
  "wdg_pair n X i k self =
     (case k of (name, mat) \<Rightarrow>
        (let depth = proxy_getitem (component_depth self) name;
             comp_def = proxy_getitem (skp_components self) name
         in case comp_def of
              None \<Rightarrow> Inr self
            | Some cdef \<Rightarrow>
                if depth = Some 1 then Inr self
                else if depth = Some i then
                  (let gname = group_name X name mat in
                   if reuse_group self \<and> gname \<in> set (map coll_name (bpy_collections self))
                   then
                     Inr (self\<lparr>component_skip :=
                                 (component_skip self)((name, mat) \<mapsto>
                                    SkipEntities (cd_entities cdef)),
                               group_written :=
                                 (group_written self)((name, mat) \<mapsto>
                                    the (index_of gname
                                           (map coll_name (bpy_collections self))))\<rparr>)
                   else
                     (let grp = length (bpy_collections self);
                          self1 = self\<lparr>bpy_collections := bpy_collections self
                                    @ [\<lparr>coll_name =
                                          unique_name X
                                            (map coll_name (bpy_collections self)) gname,
                                        coll_objects = []\<rparr>]\<rparr>
                      in case component_def_as_group n X (cd_entities cdef) name
                                mat_identity mat (Some ET_outer) grp self1 of
                           Inl e \<Rightarrow> Inl e
                         | Inr self2 \<Rightarrow>
                             Inr (self2\<lparr>component_skip :=
                                          (component_skip self2)((name, mat) \<mapsto>
                                             SkipEntities (cd_entities cdef)),
                                        group_written :=
                                          (group_written self2)((name, mat) \<mapsto> grp)\<rparr>)))
                else Inr self))"

text \<open>\<^verbatim>\<open>for k, v in component_stats.items()\<close> at level \<open>i\<close>.\<close>

fun wdg_inner ::
  "nat \<Rightarrow> Externals \<Rightarrow> int \<Rightarrow> stats \<Rightarrow> SceneImporter \<Rightarrow> error + SceneImporter" where
  "wdg_inner n X i [] self = Inr self"
| "wdg_inner n X i ((k, v) # rest) self =
     (case wdg_pair n X i k self of
        Inl e \<Rightarrow> Inl e
      | Inr self' \<Rightarrow> wdg_inner n X i rest self')"

text \<open>\<^verbatim>\<open>for i in range(max_depth + 1)\<close>.\<close>

fun wdg_outer ::
  "nat \<Rightarrow> Externals \<Rightarrow> int list \<Rightarrow> stats \<Rightarrow> SceneImporter \<Rightarrow> error + SceneImporter" where
  "wdg_outer n X [] cs self = Inr self"
| "wdg_outer n X (i # levels) cs self =
     (case wdg_inner n X i cs self of
        Inl e \<Rightarrow> Inl e
      | Inr self' \<Rightarrow> wdg_outer n X levels cs self')"

definition py_range :: "int \<Rightarrow> int list" where
  "py_range m = map int [0..<nat m]"

definition wdg_analysis :: "nat \<Rightarrow> SceneImporter \<Rightarrow> error + stats" where
  "wdg_analysis n self =
     analyze_entities n self (skp_entities self) ''Sketchup'' mat_identity ''Material''
       ET_none [] None"

definition write_duplicateable_groups ::
  "nat \<Rightarrow> Externals \<Rightarrow> SceneImporter \<Rightarrow> error + SceneImporter" where
  "write_duplicateable_groups n X self =
     (case wdg_analysis n self of
        Inl e \<Rightarrow> Inl e
      | Inr component_stats0 \<Rightarrow>
          (let instance_when_over = max_instance self;
               max_depth = max_depth_of (component_depth self);
               cs = wdg_filter instance_when_over component_stats0
           in wdg_outer n X (py_range (max_depth + 1)) cs self))"

section \<open>instance_group_dupli_vert\<close>

definition get_orientations ::
  "Externals \<Rightarrow> matrix list \<Rightarrow> (vec3 \<times> quat \<times> vec3 list) list" where
  "get_orientations X v =
     map (\<lambda>((scale, rot), locs). (scale, rot, locs))
       (fold (\<lambda>transform orientations.
                (case decompose X transform of
                   (loc, rot, scale) \<Rightarrow> dd_append (scale, rot) loc orientations))
          v [])"

text \<open>The body of the loop over the clusters.\<close>

definition dupli_cluster ::
  "Externals \<Rightarrow> string \<Rightarrow> string \<Rightarrow> (vec3 \<times> quat \<times> vec3 list) \<Rightarrow> SceneImporter
    \<Rightarrow> error + SceneImporter" where
  "dupli_cluster X name default_material cluster self =
     (case cluster of (scale, rot, locs) \<Rightarrow>
        (case locs of
           [] \<Rightarrow> Inl IndexError
         | main_loc # _ \<Rightarrow>
             (let verts = map (\<lambda>c. vec_sub c main_loc) locs;
                  dme = \<lparr>me_id = length (bpy_meshes self),
                         me_name = unique_name X (map me_name (bpy_meshes self))
                                     (''DUPLI-'' @ name),
                         me_materials = [], me_vertices = verts, me_loops = [],
                         me_loop_start = [], me_loop_total = [], me_material_index = [],
                         me_use_smooth = [], me_uv = None\<rparr>;
                  dob = (new_object (unique_name X (object_names self) (''DUPLI-'' @ name))
                           (MeshData dme))
                          \<lparr>ob_location := Some main_loc, ob_instance_type := ''VERTS''\<rparr>;
                  self1 = self\<lparr>bpy_meshes := bpy_meshes self @ [dme],
                               bpy_objects := bpy_objects self @ [dob]\<rparr>
              in case instance_object_or_group X name default_material self1 of
                   Inl e \<Rightarrow> Inl e
                 | Inr ob \<Rightarrow>
                     Inr (self1\<lparr>bpy_objects := bpy_objects self1
                                   @ [ob\<lparr>ob_scale := Some scale,
                                         ob_rotation_quaternion := Some rot,
                                         ob_parent := Some (ob_name dob)\<rparr>],
                                 context_collection := context_collection self1
                                   @ [ob_name ob, ob_name dob]\<rparr>))))"

fun dupli_clusters ::
  "Externals \<Rightarrow> string \<Rightarrow> string \<Rightarrow> (vec3 \<times> quat \<times> vec3 list) list \<Rightarrow> SceneImporter
    \<Rightarrow> error + SceneImporter" where
  "dupli_clusters X name default_material [] self = Inr self"
| "dupli_clusters X name default_material (c # cs) self =
     (case dupli_cluster X name default_material c self of
        Inl e \<Rightarrow> Inl e
      | Inr self' \<Rightarrow> dupli_clusters X name default_material cs self')"

definition instance_group_dupli_vert ::
  "Externals \<Rightarrow> string \<Rightarrow> string \<Rightarrow> stats \<Rightarrow> SceneImporter \<Rightarrow> error + SceneImporter" where
  "instance_group_dupli_vert X name default_material cs self =
     dupli_clusters X name default_material
       (get_orientations X (dd_getitem cs (name, default_material))) self"

section \<open>write_camera\<close>

text \<open>
  What the reader gives for \<open>camera.fov\<close> and \<open>camera.aspect_ratio\<close>: a float,
  or \<open>False\<close>. The comparison \<open>x == False\<close> of the source holds for \<open>False\<close>
  and, as Python compares numbers, for the float zero.
\<close>

datatype pyvalue = PyFalse | PyFloat real

definition eq_False :: "pyvalue \<Rightarrow> bool" where
  "eq_False x = (case x of PyFalse \<Rightarrow> True | PyFloat r \<Rightarrow> r = 0)"

definition float_of :: "pyvalue \<Rightarrow> real" where
  "float_of x = (case x of PyFalse \<Rightarrow> 0 | PyFloat r \<Rightarrow> r)"

record SkpCamera =
  c_pos :: vec3
  c_target :: vec3
  c_up :: vec3
  c_aspect_ratio :: pyvalue
  c_fov :: pyvalue

definition camera_names :: "SceneImporter \<Rightarrow> string list" where
  "camera_names self =
     concat (map (\<lambda>ob. case ob_data ob of CameraData c \<Rightarrow> [cam_name c] | _ \<Rightarrow> [])
               (bpy_objects self))"

definition write_camera ::
  "Externals \<Rightarrow> SkpCamera \<Rightarrow> string \<Rightarrow> SceneImporter \<Rightarrow> string \<times> SceneImporter" where
  "write_camera X camera name self =
     (let pos = c_pos camera; target = c_target camera; up = c_up camera;
          z0 = vec_sub pos target;
          x0 = cross up z0;
          y0 = cross z0 x0;
          x = normalize x0; y = normalize y0; z = normalize z0;
          aspect_ratio0 = c_aspect_ratio camera;
          fov = c_fov camera;
          aspect_ratio = (if eq_False aspect_ratio0 then aspect_ratio self
                          else float_of aspect_ratio0);
          cam = \<lparr>cam_name = unique_name X (camera_names self) (''Cam: '' @ name),
                 cam_type = (if eq_False fov then ''ORTHO'' else ''PERSP''),
                 cam_angle = (if eq_False fov then None
                              else Some ((pi * float_of fov / 180) * aspect_ratio)),
                 cam_clip_end = camera_far_plane self\<rparr>;
          ob = (new_object (unique_name X (object_names self) (''Cam: '' @ name))
                  (CameraData cam))
                 \<lparr>ob_matrix_world :=
                    (case (x, y, z, pos) of
                       ((x0, x1, x2), (y0, y1, y2), (z0, z1, z2), (p0, p1, p2)) \<Rightarrow>
                         ((x0, y0, z0, p0), (x1, y1, z1, p1), (x2, y2, z2, p2),
                          (0, 0, 0, 1))),
                  ob_location := Some pos\<rparr>
      in (cam_name cam,
          self\<lparr>bpy_objects := bpy_objects self @ [ob],
               context_collection := context_collection self @ [ob_name ob]\<rparr>))"

text \<open>The camera datablock of the object written last.\<close>

definition last_camera :: "SceneImporter \<Rightarrow> Camera option" where
  "last_camera self =
     (if bpy_objects self = [] then None
      else (case ob_data (last (bpy_objects self)) of
              CameraData c \<Rightarrow> Some c
            | _ \<Rightarrow> None))"

section \<open>A small model\<close>

text \<open>
  A table with two chairs, placed twice, and the session of an import with the
  threshold two. The helper functions are given the behaviour of a usual sink.
\<close>

definition ex_X :: Externals where
  "ex_X =
     \<lparr>group_name = (\<lambda>n m. if m = ''Material'' then n else n @ ''_'' @ m),
      group_safe_name = (\<lambda>n. if n = [] then ''No Name'' else n),
      unique_name = (\<lambda>used n. if n \<in> set used then n @ ''.001'' else n),
      decompose = (\<lambda>M. case M of ((a, _, _, x), (_, b, _, y), (_, _, c, z), _) \<Rightarrow>
                     ((x, y, z), (1, 0, 0, 0), (a, b, c)))\<rparr>"

definition ex_face :: Face where
  "ex_face =
     \<lparr>f_material = None, f_vs = [(0, 0, 0), (1, 0, 0), (0, 1, 0)],
      f_tri = [(0, 1, 2)], f_uvs = [(0, 0), (1, 0), (0, 1)],
      f_edges = [False, False, False]\<rparr>"

definition ex_translate :: "real \<Rightarrow> matrix" where
  "ex_translate x = ((1, 0, 0, x), (0, 1, 0, 0), (0, 0, 1, 0), (0, 0, 0, 1))"

definition ex_instance :: "string \<Rightarrow> real \<Rightarrow> bool \<Rightarrow> string \<Rightarrow> Instance" where
  "ex_instance d x h l =
     \<lparr>i_definition_name = d, i_transform = ex_translate x, i_material = None,
      i_name = [], i_hidden = h, i_layer = l\<rparr>"

definition ex_chair :: Entities where
  "ex_chair = Entities [] [] [ex_face]"

definition ex_table :: Entities where
  "ex_table =
     Entities [] [ex_instance ''Chair'' 1 False ''Layer0'',
                  ex_instance ''Chair'' 2 False ''Layer0''] []"

definition ex_root :: Entities where
  "ex_root =
     Entities [] [ex_instance ''Table'' 10 False ''Layer0'',
                  ex_instance ''Table'' 20 False ''Layer0''] []"

definition ex_self :: SceneImporter where
  "ex_self =
     \<lparr>layers_skip = [], max_instance = 2, reuse_group = False, aspect_ratio = 16 / 9,
      camera_far_plane = 250, skp_entities = ex_root,
      skp_components =
        [(''Chair'', \<lparr>cd_name = ''Chair'', cd_entities = ex_chair\<rparr>),
         (''Table'', \<lparr>cd_name = ''Table'', cd_entities = ex_table\<rparr>)],
      component_depth = [(''Chair'', 1), (''Table'', 2)],
      materials = [(''Material'', \<lparr>bm_name = ''Material'', bm_nodes = Some []\<rparr>)],
      component_stats = [], component_skip = Map.empty, group_written = Map.empty,
      component_meshes = Map.empty, bpy_meshes = [], bpy_objects = [],
      bpy_collections = [], context_collection = []\<rparr>"

definition ex_camera :: "pyvalue \<Rightarrow> pyvalue \<Rightarrow> SkpCamera" where
  "ex_camera fov aspect =
     \<lparr>c_pos = (0, 0, 10), c_target = (0, 0, 0), c_up = (0, 1, 0),
      c_aspect_ratio = aspect, c_fov = fov\<rparr>"

section \<open>What a call leaves unchanged\<close>

text \<open>
  \<open>frame s s'\<close>: the options and the model read by the session are the same in
  \<open>s'\<close> as in \<open>s\<close>, every mesh cached in \<open>s\<close> is cached in \<open>s'\<close>, and the
  objects, meshes and collection names of \<open>s\<close> are still there, in front.
\<close>

definition frame :: "SceneImporter \<Rightarrow> SceneImporter \<Rightarrow> bool" where
  "frame s s' =
     (layers_skip s' = layers_skip s \<and> max_instance s' = max_instance s
      \<and> reuse_group s' = reuse_group s \<and> aspect_ratio s' = aspect_ratio s
      \<and> camera_far_plane s' = camera_far_plane s \<and> skp_entities s' = skp_entities s
      \<and> skp_components s' = skp_components s \<and> component_depth s' = component_depth s
      \<and> materials s' = materials s
      \<and> component_meshes s \<subseteq>\<^sub>m component_meshes s'
      \<and> prefix (bpy_objects s) (bpy_objects s')
      \<and> prefix (bpy_meshes s) (bpy_meshes s')
      \<and> prefix (map coll_name (bpy_collections s)) (map coll_name (bpy_collections s')))"

definition we_frame :: "SceneImporter \<Rightarrow> SceneImporter \<Rightarrow> bool" where
  "we_frame s s' =
     (frame s s' \<and> component_skip s' = component_skip s
      \<and> group_written s' = group_written s \<and> bpy_collections s' = bpy_collections s)"

definition cdag_frame :: "SceneImporter \<Rightarrow> SceneImporter \<Rightarrow> bool" where
  "cdag_frame s s' =
     (frame s s' \<and> component_skip s' = component_skip s
      \<and> group_written s' = group_written s \<and> component_stats s' = component_stats s
      \<and> map coll_name (bpy_collections s') = map coll_name (bpy_collections s))"

section \<open>The analysis as the specification words it\<close>

text \<open>
  \<open>analyze_spec\<close> follows the words of the specification and not the source:
  a traversal that leaves out a node whose layer is hidden, enters the
  transform of a component instance under its name and effective material,
  and goes on into every nested group and into the definition of every nested
  instance. It has no set of skipped components to consult.
\<close>

type_synonym spec_rec =
  "Entities \<Rightarrow> string \<Rightarrow> matrix \<Rightarrow> string \<Rightarrow> EntityType \<Rightarrow> stats \<Rightarrow> error + stats"

fun as_groups ::
  "spec_rec \<Rightarrow> SceneImporter \<Rightarrow> matrix \<Rightarrow> string \<Rightarrow> Group list \<Rightarrow> stats \<Rightarrow> error + stats" where
  "as_groups rec self transform default_material [] cs = Inr cs"
| "as_groups rec self transform default_material (g # gs) cs =
     (if g_layer g \<in> set (layers_skip self)
      then as_groups rec self transform default_material gs cs
      else
        (case rec (g_entities g) (''G-'' @ g_name g) (mat_mul transform (g_transform g))
                (inherent_default_mat (g_material g) default_material) ET_group cs of
           Inl e \<Rightarrow> Inl e
         | Inr cs' \<Rightarrow> as_groups rec self transform default_material gs cs'))"

fun as_instances ::
  "spec_rec \<Rightarrow> SceneImporter \<Rightarrow> matrix \<Rightarrow> string \<Rightarrow> Instance list \<Rightarrow> stats \<Rightarrow> error + stats" where
  "as_instances rec self transform default_material [] cs = Inr cs"
| "as_instances rec self transform default_material (inst # insts) cs =
     (if i_layer inst \<in> set (layers_skip self)
      then as_instances rec self transform default_material insts cs
      else
        (case proxy_getitem (skp_components self) (i_definition_name inst) of
           None \<Rightarrow> Inl AttributeError
         | Some cdef \<Rightarrow>
             (case rec (cd_entities cdef) (cd_name cdef)
                     (mat_mul transform (i_transform inst))
                     (inherent_default_mat (i_material inst) default_material)
                     ET_component cs of
                Inl e \<Rightarrow> Inl e
              | Inr cs' \<Rightarrow> as_instances rec self transform default_material insts cs')))"

primrec analyze_spec ::
  "nat \<Rightarrow> SceneImporter \<Rightarrow> Entities \<Rightarrow> string \<Rightarrow> matrix \<Rightarrow> string \<Rightarrow> EntityType \<Rightarrow> stats
    \<Rightarrow> error + stats" where
  "analyze_spec 0 self entities name transform default_material kind cs =
     Inl RecursionError"
| "analyze_spec (Suc n) self entities name transform default_material kind cs =
     (case as_groups (analyze_spec n self) self transform default_material (groups entities)
             (if kind = ET_component
              then dd_append (name, default_material) transform cs else cs) of
        Inl e \<Rightarrow> Inl e
      | Inr cs' \<Rightarrow>
          as_instances (analyze_spec n self) self transform default_material
            (instances entities) cs')"


section \<open>Auxiliary notions of the properties\<close>

text \<open>\<open>stats_le cs cs'\<close>: every list of \<open>cs\<close> is the front of its list in \<open>cs'\<close>.\<close>

definition stats_le :: "stats \<Rightarrow> stats \<Rightarrow> bool" where
  "stats_le cs cs' = (\<forall>k. prefix (dd_getitem cs k) (dd_getitem cs' k))"

definition g_set_hidden :: "bool \<Rightarrow> Group \<Rightarrow> Group" where
  "g_set_hidden h g =
     Group (g_name g) (g_transform g) (g_material g) h (g_layer g) (g_entities g)"


definition ex_hidden_group :: Group where
  "ex_hidden_group = Group ''Shed'' (ex_translate 5) None False ''Hidden'' ex_chair"

definition ex_hidden_self :: SceneImporter where
  "ex_hidden_self = ex_self\<lparr>layers_skip := [''Hidden'']\<rparr>"

definition ex_flagged_instance :: Instance where
  "ex_flagged_instance = ex_instance ''Chair'' 1 True ''Layer0''"

definition ex_flagged_group :: Group where
  "ex_flagged_group = Group ''Shed'' (ex_translate 5) None True ''Layer0'' ex_chair"

section \<open>Properties\<close>

subsection \<open>The small model\<close>

lemma ex_self_fields:
  "layers_skip ex_self = []"
  "max_instance ex_self = 2"
  "reuse_group ex_self = False"
  "skp_entities ex_self = ex_root"
  "skp_components ex_self =
     [(''Chair'', \<lparr>cd_name = ''Chair'', cd_entities = ex_chair\<rparr>),
      (''Table'', \<lparr>cd_name = ''Table'', cd_entities = ex_table\<rparr>)]"
  "component_depth ex_self = [(''Chair'', 1), (''Table'', 2)]"
  "materials ex_self = [(''Material'', \<lparr>bm_name = ''Material'', bm_nodes = Some []\<rparr>)]"
  "component_stats ex_self = []"
  "component_skip ex_self = Map.empty"
  "group_written ex_self = Map.empty"
  "component_meshes ex_self = Map.empty"
  "bpy_meshes ex_self = []"
  "bpy_objects ex_self = []"
  "bpy_collections ex_self = []"
  "context_collection ex_self = []"
  by (simp_all add: ex_self_def)

subsection \<open>Dictionaries\<close>

lemma dd_getitem_append_same: "dd_getitem (dd_append k x d) k = dd_getitem d k @ [x]"
  by (induction d) (auto simp: dd_getitem_def)

lemma dd_getitem_append_other:
  "k' \<noteq> k \<Longrightarrow> dd_getitem (dd_append k x d) k' = dd_getitem d k'"
  by (induction d) (auto simp: dd_getitem_def)

subsection \<open>The short cut of the write pass\<close>

text \<open>
  C3. A call of \<open>write_entities\<close> for a component whose key \<open>(name,
  default_material)\<close> is in \<open>component_skip\<close> returns at once: the session it
  leaves differs from the one it found in \<open>component_stats\<close> only, where the
  transform of the call is appended to the list of that key and every other
  key keeps its list. No mesh is built, no object is made and no child is
  visited.
\<close>

theorem write_entities_skip:
  assumes "(name, default_material) \<in> dom (component_skip self)"
  shows "\<exists>cs'. write_entities (Suc n) X entities name parent_transform default_material
               (Some ET_component) parent_name parent_location self
             = Inr (self\<lparr>component_stats := cs'\<rparr>)
           \<and> dd_getitem cs' (name, default_material)
               = dd_getitem (component_stats self) (name, default_material)
                   @ [parent_transform]
           \<and> (\<forall>k. k \<noteq> (name, default_material)
                 \<longrightarrow> dd_getitem cs' k = dd_getitem (component_stats self) k)"
proof -
  let ?cs = "dd_append (name, default_material) parent_transform (component_stats self)"
  have "write_entities (Suc n) X entities name parent_transform default_material
          (Some ET_component) parent_name parent_location self
        = Inr (self\<lparr>component_stats := ?cs\<rparr>)"
    using assms by (simp add: write_entities_body_def)
  moreover have "dd_getitem ?cs (name, default_material)
        = dd_getitem (component_stats self) (name, default_material) @ [parent_transform]"
    by (rule dd_getitem_append_same)
  moreover have "\<forall>k. k \<noteq> (name, default_material)
        \<longrightarrow> dd_getitem ?cs k = dd_getitem (component_stats self) k"
    by (simp add: dd_getitem_append_other)
  ultimately show ?thesis by blast
qed

theorem write_entities_skip_witness:
  "(''Chair'', ''Material'')
     \<in> dom (component_skip (ex_self\<lparr>component_skip := [(''Chair'', ''Material'') \<mapsto> SkipTrue]\<rparr>))
   \<and> (\<exists>cs'. write_entities (Suc 0) ex_X ex_chair ''Chair'' (ex_translate 1) ''Material''
               (Some ET_component) None (0, 0, 0)
               (ex_self\<lparr>component_skip := [(''Chair'', ''Material'') \<mapsto> SkipTrue]\<rparr>)
             = Inr (ex_self\<lparr>component_skip := [(''Chair'', ''Material'') \<mapsto> SkipTrue],
                            component_stats := cs'\<rparr>))"
proof -
  let ?s = "ex_self\<lparr>component_skip := [(''Chair'', ''Material'') \<mapsto> SkipTrue]\<rparr>"
  have h: "(''Chair'', ''Material'') \<in> dom (component_skip ?s)" by simp
  from write_entities_skip [OF h, of 0 ex_X ex_chair "ex_translate 1" None "(0, 0, 0)"]
  show ?thesis using h by blast
qed

subsection \<open>The camera\<close>

lemma write_camera_last:
  "last_camera (snd (write_camera X camera name self)) =
     Some \<lparr>cam_name = unique_name X (camera_names self) (''Cam: '' @ name),
           cam_type = (if eq_False (c_fov camera) then ''ORTHO'' else ''PERSP''),
           cam_angle =
             (if eq_False (c_fov camera) then None
              else Some ((pi * float_of (c_fov camera) / 180)
                         * (if eq_False (c_aspect_ratio camera) then aspect_ratio self
                            else float_of (c_aspect_ratio camera)))),
           cam_clip_end = camera_far_plane self\<rparr>"
  by (simp add: write_camera_def last_camera_def Let_def new_object_def
           split: prod.splits)

text \<open>
  C9, as the code has it. \<open>write_camera\<close> makes the camera orthographic, and
  sets no angle, when the field of view it reads compares equal to \<open>False\<close>:
  when none is reported, and also when the value reported is zero. For any other
  field of view \<open>f\<close> the angle is \<open>(pi * f / 180) * aspect\<close>, where \<open>aspect\<close>
  is the aspect ratio of the source, or that of the render viewport when the
  source's compares equal to \<open>False\<close> (none reported, or zero).
\<close>

theorem write_camera_fov:
  "\<exists>c. last_camera (snd (write_camera X camera name self)) = Some c
     \<and> (c_fov camera = PyFalse \<or> c_fov camera = PyFloat 0
          \<longrightarrow> cam_type c = ''ORTHO'' \<and> cam_angle c = None)
     \<and> (\<forall>f. c_fov camera = PyFloat f \<and> f \<noteq> 0
          \<longrightarrow> cam_type c = ''PERSP''
            \<and> cam_angle c =
                Some ((pi * f / 180)
                      * (case c_aspect_ratio camera of
                           PyFalse \<Rightarrow> aspect_ratio self
                         | PyFloat a \<Rightarrow> if a = 0 then aspect_ratio self else a)))"
  by (auto simp: write_camera_last eq_False_def float_of_def split: pyvalue.splits)

theorem write_camera_fov_witness:
  "\<exists>c. last_camera (snd (write_camera ex_X (ex_camera (PyFloat 60) (PyFloat 1.5))
                          ''Scene 1'' ex_self)) = Some c
     \<and> cam_type c = ''PERSP'' \<and> cam_angle c = Some ((pi * 60 / 180) * 1.5)"
  using write_camera_fov [of ex_X "ex_camera (PyFloat 60) (PyFloat 1.5)" "''Scene 1''" ex_self]
  by (auto simp: ex_camera_def)

text \<open>
  A camera that reports the field of view zero and the aspect ratio 1.5: the
  output is orthographic and no angle \<open>(pi * 0 / 180) * 1.5\<close> is set.
\<close>

theorem write_camera_fov_counterexample:
  "\<not> (\<exists>c. last_camera (snd (write_camera ex_X (ex_camera (PyFloat 0) (PyFloat 1.5))
                              ''Scene 1'' ex_self)) = Some c
          \<and> cam_angle c = Some ((pi * 0 / 180) * 1.5))"
  by (simp add: write_camera_last eq_False_def ex_camera_def)

subsection \<open>Frames\<close>

lemma frame_refl: "frame s s"
  by (simp add: frame_def)

lemma frame_trans: "frame s s' \<Longrightarrow> frame s' s'' \<Longrightarrow> frame s s''"
  unfolding frame_def by (auto intro: map_le_trans prefix_order.trans)

lemma we_frame_refl: "we_frame s s"
  by (simp add: we_frame_def frame_refl)

lemma we_frame_trans: "we_frame s s' \<Longrightarrow> we_frame s' s'' \<Longrightarrow> we_frame s s''"
  unfolding we_frame_def by (auto intro: frame_trans)

lemma cdag_frame_refl: "cdag_frame s s"
  by (simp add: cdag_frame_def frame_refl)

lemma cdag_frame_trans: "cdag_frame s s' \<Longrightarrow> cdag_frame s' s'' \<Longrightarrow> cdag_frame s s''"
  unfolding cdag_frame_def by (auto intro: frame_trans)

lemma write_mesh_data_cases:
  assumes "write_mesh_data X entities name dm s = Inr (r, s')"
  shows "s' = s
     \<or> (\<exists>me. r = (Some me, False) \<and> component_meshes s (name, dm) = None
           \<and> s' = s\<lparr>bpy_meshes := bpy_meshes s @ [me],
                     component_meshes := (component_meshes s)((name, dm) \<mapsto> (me, False))\<rparr>)"
proof (cases "component_meshes s (name, dm)")
  case (Some c)
  with assms show ?thesis
    by (simp add: write_mesh_data_def split: prod.splits)
next
  case None
  show ?thesis
  proof (cases "wmd_faces dm (faces entities) wmd_init")
    case (Inl e)
    with None assms show ?thesis by (simp add: write_mesh_data_def)
  next
    case (Inr acc)
    show ?thesis
    proof (cases "length (acc_verts acc) = 0")
      case True
      with None Inr assms show ?thesis by (simp add: write_mesh_data_def)
    next
      case False
      with None Inr assms show ?thesis
        by (simp add: write_mesh_data_def Let_def split: sum.splits prod.splits) blast
    qed
  qed
qed

lemma write_mesh_data_we_frame:
  assumes "write_mesh_data X entities name dm s = Inr (r, s')"
  shows "we_frame s s' \<and> component_stats s' = component_stats s
     \<and> bpy_objects s' = bpy_objects s \<and> context_collection s' = context_collection s"
proof -
  from write_mesh_data_cases [OF assms] show ?thesis
  proof
    assume "s' = s"
    then show ?thesis by (simp add: we_frame_refl)
  next
    assume "\<exists>me. r = (Some me, False) \<and> component_meshes s (name, dm) = None
           \<and> s' = s\<lparr>bpy_meshes := bpy_meshes s @ [me],
                     component_meshes := (component_meshes s)((name, dm) \<mapsto> (me, False))\<rparr>"
    then obtain me where n: "component_meshes s (name, dm) = None"
      and s': "s' = s\<lparr>bpy_meshes := bpy_meshes s @ [me],
                     component_meshes := (component_meshes s)((name, dm) \<mapsto> (me, False))\<rparr>"
      by blast
    from n have "component_meshes s \<subseteq>\<^sub>m (component_meshes s)((name, dm) \<mapsto> (me, False))"
      by (auto simp: map_le_def)
    with s' show ?thesis by (simp add: we_frame_def frame_def)
  qed
qed

lemma we_objects_cases:
  assumes "we_objects X entities name pt pn pl me s = Inr (s', obname, nl)"
  shows "\<exists>parent.
           s' = s\<lparr>bpy_objects := bpy_objects s
                     @ [we_ob X entities name pt parent pl me s]
                     @ we_loose X entities name pt me s,
                   context_collection := context_collection s
                     @ map ob_name (we_loose X entities name pt me s)
                     @ [unique_name X (object_names s) name]\<rparr>
         \<and> obname = unique_name X (object_names s) name"
  using assms by (auto simp: we_objects_def Let_def split: sum.splits)

lemma we_objects_frame:
  assumes "we_objects X entities name pt pn pl me s = Inr (s', obname, nl)"
  shows "we_frame s s' \<and> component_stats s' = component_stats s"
proof -
  from we_objects_cases [OF assms] obtain parent where
    "s' = s\<lparr>bpy_objects := bpy_objects s
                     @ [we_ob X entities name pt parent pl me s]
                     @ we_loose X entities name pt me s,
                   context_collection := context_collection s
                     @ map ob_name (we_loose X entities name pt me s)
                     @ [unique_name X (object_names s) name]\<rparr>"
    by blast
  then show ?thesis by (simp add: we_frame_def frame_def)
qed

lemma we_groups_frame:
  assumes rec: "\<And>e nm t d et pn pl s s'. rec e nm t d et pn pl s = Inr s' \<Longrightarrow> we_frame s s'"
  shows "we_groups rec X pt dm obname nl gs s = Inr s' \<Longrightarrow> we_frame s s'"
proof (induction gs arbitrary: s)
  case Nil
  then show ?case by (simp add: we_frame_refl)
next
  case (Cons g gs)
  show ?case
  proof (cases "g_hidden g \<or> (layers_skip s \<noteq> [] \<and> g_layer g \<in> set (layers_skip s))")
    case True
    with Cons.prems have "we_groups rec X pt dm obname nl gs s = Inr s'"
      by (simp split: if_splits)
    then show ?thesis by (rule Cons.IH)
  next
    case False
    let ?s1 = "s\<lparr>bpy_objects := bpy_objects s
                 @ [new_object (unique_name X (object_names s) (g_name g)) NoData]\<rparr>"
    have f1: "we_frame s ?s1" by (simp add: we_frame_def frame_def)
    from False Cons.prems obtain s2 where
      r: "rec (g_entities g)
            (''G-'' @ group_safe_name X
               (ob_name (new_object (unique_name X (object_names s) (g_name g)) NoData)))
            (mat_mul pt (g_transform g)) (inherent_default_mat (g_material g) dm)
            (Some ET_group) (Some obname) nl ?s1 = Inr s2"
      and rest: "we_groups rec X pt dm obname nl gs s2 = Inr s'"
      by (auto simp: Let_def split: sum.splits)
    from rec [OF r] have "we_frame ?s1 s2" .
    moreover from Cons.IH [OF rest] have "we_frame s2 s'" .
    ultimately show ?thesis using f1 by (blast intro: we_frame_trans)
  qed
qed

lemma we_instances_frame:
  assumes rec: "\<And>e nm t d et pn pl s s'. rec e nm t d et pn pl s = Inr s' \<Longrightarrow> we_frame s s'"
  shows "we_instances rec X pt dm obname nl insts s = Inr s' \<Longrightarrow> we_frame s s'"
proof (induction insts arbitrary: s)
  case Nil
  then show ?case by (simp add: we_frame_refl)
next
  case (Cons i insts)
  show ?case
  proof (cases "i_hidden i \<or> (layers_skip s \<noteq> [] \<and> i_layer i \<in> set (layers_skip s))")
    case True
    with Cons.prems have "we_instances rec X pt dm obname nl insts s = Inr s'"
      by (simp split: if_splits)
    then show ?thesis by (rule Cons.IH)
  next
    case False
    from False Cons.prems obtain cdef s2 where
      r: "rec (cd_entities cdef) (we_cname i cdef)
            (mat_mul pt (i_transform i)) (inherent_default_mat (i_material i) dm)
            (Some ET_component) (Some obname) nl s = Inr s2"
      and rest: "we_instances rec X pt dm obname nl insts s2 = Inr s'"
      by (auto simp: Let_def split: sum.splits option.splits)
    from rec [OF r] have "we_frame s s2" .
    moreover from Cons.IH [OF rest] have "we_frame s2 s'" .
    ultimately show ?thesis by (blast intro: we_frame_trans)
  qed
qed

lemma write_entities_frame:
  "write_entities n X entities name pt dm etype pn pl s = Inr s' \<Longrightarrow> we_frame s s'"
proof (induction n arbitrary: entities name pt dm etype pn pl s s')
  case 0
  then show ?case by simp
next
  case (Suc n)
  show ?case
  proof (cases "etype = Some ET_component \<and> (name, dm) \<in> dom (component_skip s)")
    case True
    with Suc.prems have "s' = s\<lparr>component_stats :=
        dd_append (name, dm) pt (component_stats s)\<rparr>"
      by (auto simp: write_entities_body_def)
    then show ?thesis by (simp add: we_frame_def frame_def)
  next
    case False
    with Suc.prems obtain me alpha s1 s2 obname nl s3 where
      m: "write_mesh_data X entities name dm s = Inr ((me, alpha), s1)"
      and o: "we_objects X entities name pt pn pl me s1 = Inr (s2, obname, nl)"
      and g: "we_groups (write_entities n X) X pt dm obname nl (groups entities) s2 = Inr s3"
      and i: "we_instances (write_entities n X) X pt dm obname nl (instances entities) s3
                = Inr s'"
      by (auto simp: write_entities_body_def split: sum.splits prod.splits)
    from write_mesh_data_we_frame [OF m] have "we_frame s s1" by simp
    moreover from we_objects_frame [OF o] have "we_frame s1 s2" by simp
    moreover from we_groups_frame [OF Suc.IH g] have "we_frame s2 s3" .
    moreover from we_instances_frame [OF Suc.IH i] have "we_frame s3 s'" .
    ultimately show ?thesis by (blast intro: we_frame_trans)
  qed
qed

subsection \<open>Hidden layers\<close>

lemma ae_groups_append:
  "ae_groups rec self t dm (xs @ ys) cs =
     (case ae_groups rec self t dm xs cs of
        Inl e \<Rightarrow> Inl e
      | Inr cs' \<Rightarrow> ae_groups rec self t dm ys cs')"
  by (induction xs arbitrary: cs) (auto split: sum.splits)

lemma ae_instances_append:
  "ae_instances rec self t dm sl (xs @ ys) cs =
     (case ae_instances rec self t dm sl xs cs of
        Inl e \<Rightarrow> Inl e
      | Inr cs' \<Rightarrow> ae_instances rec self t dm sl ys cs')"
  by (induction xs arbitrary: cs) (auto simp: Let_def split: sum.splits option.splits)

lemma we_groups_append:
  "we_groups rec X pt dm ob nl (xs @ ys) s =
     (case we_groups rec X pt dm ob nl xs s of
        Inl e \<Rightarrow> Inl e
      | Inr s' \<Rightarrow> we_groups rec X pt dm ob nl ys s')"
  by (induction xs arbitrary: s) (auto simp: Let_def split: sum.splits)

lemma we_instances_append:
  "we_instances rec X pt dm ob nl (xs @ ys) s =
     (case we_instances rec X pt dm ob nl xs s of
        Inl e \<Rightarrow> Inl e
      | Inr s' \<Rightarrow> we_instances rec X pt dm ob nl ys s')"
  by (induction xs arbitrary: s) (auto simp: Let_def split: sum.splits option.splits)

lemma we_groups_layers:
  "we_groups (write_entities n X) X pt dm ob nl gs s = Inr s' \<Longrightarrow> layers_skip s' = layers_skip s"
  using we_groups_frame [of "write_entities n X", OF write_entities_frame]
  by (fastforce simp: we_frame_def frame_def)

lemma we_instances_layers:
  "we_instances (write_entities n X) X pt dm ob nl insts s = Inr s'
    \<Longrightarrow> layers_skip s' = layers_skip s"
  using we_instances_frame [of "write_entities n X", OF write_entities_frame]
  by (fastforce simp: we_frame_def frame_def)


text \<open>
  C6. A group or an instance on a layer of \<open>layers_skip\<close> counts for nothing:
  the analysis of an entity set gives the same statistics with the node and
  without it, and the two loops of the write pass leave the same session with
  the node and without it, so neither pass does anything for the node or for
  what lies beneath it.
\<close>

theorem hidden_layer_filtered:
  assumes g: "g_layer g \<in> set (layers_skip self)"
    and i: "i_layer inst \<in> set (layers_skip self)"
  shows "analyze_entities n self (Entities (gs1 @ g # gs2) insts fs) name t dm et cs sk
           = analyze_entities n self (Entities (gs1 @ gs2) insts fs) name t dm et cs sk
       \<and> analyze_entities n self (Entities gs (is1 @ inst # is2) fs) name t dm et cs sk
           = analyze_entities n self (Entities gs (is1 @ is2) fs) name t dm et cs sk
       \<and> we_groups (write_entities n X) X pt dm ob nl (gs1 @ g # gs2) self
           = we_groups (write_entities n X) X pt dm ob nl (gs1 @ gs2) self
       \<and> we_instances (write_entities n X) X pt dm ob nl (is1 @ inst # is2) self
           = we_instances (write_entities n X) X pt dm ob nl (is1 @ is2) self"
proof (intro conjI)
  from g have ne: "layers_skip self \<noteq> []" by auto
  have ag: "ae_groups rec self t dm (gs1 @ g # gs2) c = ae_groups rec self t dm (gs1 @ gs2) c"
    for rec c
    using g ne by (simp add: ae_groups_append split: sum.splits)
  have ai: "ae_instances rec self t dm sl (is1 @ inst # is2) c
         = ae_instances rec self t dm sl (is1 @ is2) c" for rec sl c
    using i ne by (simp add: ae_instances_append split: sum.splits)
  show "analyze_entities n self (Entities (gs1 @ g # gs2) insts fs) name t dm et cs sk
           = analyze_entities n self (Entities (gs1 @ gs2) insts fs) name t dm et cs sk"
    by (cases n) (simp_all add: analyze_entities_body_def ag cong: sum.case_cong)
  show "analyze_entities n self (Entities gs (is1 @ inst # is2) fs) name t dm et cs sk
           = analyze_entities n self (Entities gs (is1 @ is2) fs) name t dm et cs sk"
    by (cases n) (simp_all add: analyze_entities_body_def ai cong: sum.case_cong)
  show "we_groups (write_entities n X) X pt dm ob nl (gs1 @ g # gs2) self
           = we_groups (write_entities n X) X pt dm ob nl (gs1 @ gs2) self"
  proof (cases "we_groups (write_entities n X) X pt dm ob nl gs1 self")
    case (Inl e)
    then show ?thesis by (simp add: we_groups_append)
  next
    case (Inr s1)
    from we_groups_layers [OF Inr] g ne
    have "layers_skip s1 \<noteq> [] \<and> g_layer g \<in> set (layers_skip s1)" by simp
    with Inr show ?thesis by (simp add: we_groups_append)
  qed
  show "we_instances (write_entities n X) X pt dm ob nl (is1 @ inst # is2) self
           = we_instances (write_entities n X) X pt dm ob nl (is1 @ is2) self"
  proof (cases "we_instances (write_entities n X) X pt dm ob nl is1 self")
    case (Inl e)
    then show ?thesis by (simp add: we_instances_append)
  next
    case (Inr s1)
    from we_instances_layers [OF Inr] i ne
    have "layers_skip s1 \<noteq> [] \<and> i_layer inst \<in> set (layers_skip s1)" by simp
    with Inr show ?thesis by (simp add: we_instances_append)
  qed
qed


theorem hidden_layer_filtered_witness:
  "g_layer ex_hidden_group \<in> set (layers_skip ex_hidden_self)
   \<and> i_layer (ex_instance ''Chair'' 1 False ''Hidden'') \<in> set (layers_skip ex_hidden_self)
   \<and> analyze_entities 2 ex_hidden_self (Entities ([] @ ex_hidden_group # []) [] [])
         ''Sketchup'' mat_identity ''Material'' ET_none [] None
       = analyze_entities 2 ex_hidden_self (Entities ([] @ []) [] [])
           ''Sketchup'' mat_identity ''Material'' ET_none [] None
   \<and> we_instances (write_entities 2 ex_X) ex_X mat_identity ''Material'' ''Root'' (0, 0, 0)
         ([] @ ex_instance ''Chair'' 1 False ''Hidden'' # []) ex_hidden_self
       = we_instances (write_entities 2 ex_X) ex_X mat_identity ''Material'' ''Root'' (0, 0, 0)
           ([] @ []) ex_hidden_self"
proof -
  have g: "g_layer ex_hidden_group \<in> set (layers_skip ex_hidden_self)"
    by (simp add: ex_hidden_group_def ex_hidden_self_def)
  have i: "i_layer (ex_instance ''Chair'' 1 False ''Hidden'') \<in> set (layers_skip ex_hidden_self)"
    by (simp add: ex_instance_def ex_hidden_self_def)
  from hidden_layer_filtered [OF g i, of 2 "[]" "[]" "[]" "[]" "''Sketchup''" mat_identity
      "''Material''" ET_none "[]" None "[]" "[]" "[]" ex_X mat_identity "''Root''" "(0, 0, 0)"]
  show ?thesis using g i by blast
qed

subsection \<open>Completeness of the analysis\<close>

lemma ae_groups_spec:
  assumes "\<And>e nm t d et c. rec e nm t d et c None = rec' e nm t d et c"
  shows "ae_groups rec self t dm gs cs = as_groups rec' self t dm gs cs"
  using assms by (induction gs arbitrary: cs) (auto split: sum.splits)

lemma ae_instances_spec:
  assumes "\<And>e nm t d et c. rec e nm t d et c None = rec' e nm t d et c"
  shows "ae_instances rec self t dm [] insts cs = as_instances rec' self t dm insts cs"
  using assms
  by (induction insts arbitrary: cs) (auto simp: Let_def split: sum.splits option.splits)

lemma analyze_entities_spec:
  "analyze_entities n self e nm t dm et cs None = analyze_spec n self e nm t dm et cs"
proof (induction n arbitrary: e nm t dm et cs)
  case 0
  show ?case by simp
next
  case (Suc n)
  have g: "ae_groups (analyze_entities n self) self t dm gs c
         = as_groups (analyze_spec n self) self t dm gs c" for gs c
    by (rule ae_groups_spec) (rule Suc.IH)
  have i: "ae_instances (analyze_entities n self) self t dm [] is c
         = as_instances (analyze_spec n self) self t dm is c" for "is" c
    by (rule ae_instances_spec) (rule Suc.IH)
  show ?case by (simp add: analyze_entities_body_def g i cong: sum.case_cong)
qed

lemma ae_groups_self:
  assumes "layers_skip self' = layers_skip self"
  shows "ae_groups rec self' t dm gs cs = ae_groups rec self t dm gs cs"
  using assms by (induction gs arbitrary: cs) (auto split: sum.splits)

lemma ae_instances_self:
  assumes "layers_skip self' = layers_skip self" "skp_components self' = skp_components self"
  shows "ae_instances rec self' t dm sl insts cs = ae_instances rec self t dm sl insts cs"
  using assms
  by (induction insts arbitrary: cs) (auto simp: Let_def split: sum.splits option.splits)

lemma analyze_entities_self:
  assumes "layers_skip self' = layers_skip self" "skp_components self' = skp_components self"
  shows "analyze_entities n self' e nm t dm et cs sk = analyze_entities n self e nm t dm et cs sk"
proof -
  have "analyze_entities n self' = analyze_entities n self"
  proof (induction n)
    case 0
    show ?case by (simp add: fun_eq_iff)
  next
    case (Suc n)
    show ?case
      by (simp add: fun_eq_iff analyze_entities_body_def Suc
            ae_groups_self [OF assms(1)] ae_instances_self [OF assms]
          cong: sum.case_cong)
  qed
  then show ?thesis by simp
qed


text \<open>
  C7. The analysis that \<open>write_duplicateable_groups\<close> starts passes no list of
  skipped components, and no call beneath it passes one: whatever the session's
  \<open>component_skip\<close> holds, the statistics are those of the traversal that
  consults no skipped component at all and so visits and counts every component
  occurrence outside the hidden layers. The same holds for every call of
  \<open>analyze_entities\<close> that is given no list.
\<close>

theorem analysis_visits_everything:
  "wdg_analysis n (self\<lparr>component_skip := S\<rparr>)
     = analyze_spec n self (skp_entities self) ''Sketchup'' mat_identity ''Material''
         ET_none []
   \<and> analyze_entities n (self\<lparr>component_skip := S\<rparr>) e nm t dm et cs None
       = analyze_spec n self e nm t dm et cs"
proof -
  have "analyze_entities n (self\<lparr>component_skip := S\<rparr>) e' nm' t' dm' et' cs' None
       = analyze_spec n self e' nm' t' dm' et' cs'" for e' nm' t' dm' et' cs'
  proof -
    have "analyze_entities n (self\<lparr>component_skip := S\<rparr>) e' nm' t' dm' et' cs' None
        = analyze_entities n self e' nm' t' dm' et' cs' None"
      by (rule analyze_entities_self) simp_all
    then show ?thesis by (simp add: analyze_entities_spec)
  qed
  then show ?thesis by (simp add: wdg_analysis_def)
qed

subsection \<open>The hidden flag\<close>

lemma stats_le_refl: "stats_le cs cs"
  by (simp add: stats_le_def)

lemma stats_le_trans: "stats_le a b \<Longrightarrow> stats_le b c \<Longrightarrow> stats_le a c"
  unfolding stats_le_def by (blast intro: prefix_order.trans)

lemma stats_le_append: "stats_le cs (dd_append k x cs)"
  unfolding stats_le_def
proof
  fix k'
  show "prefix (dd_getitem cs k') (dd_getitem (dd_append k x cs) k')"
    by (cases "k' = k") (simp_all add: dd_getitem_append_same dd_getitem_append_other)
qed

lemma ae_groups_mono:
  assumes rec: "\<And>e nm t d et c sk c'. rec e nm t d et c sk = Inr c' \<Longrightarrow> stats_le c c'"
  shows "ae_groups rec self t dm gs cs = Inr cs' \<Longrightarrow> stats_le cs cs'"
proof (induction gs arbitrary: cs)
  case Nil
  then show ?case by (simp add: stats_le_refl)
next
  case (Cons g gs)
  show ?case
  proof (cases "layers_skip self \<noteq> [] \<and> g_layer g \<in> set (layers_skip self)")
    case True
    with Cons show ?thesis by simp
  next
    case False
    with Cons.prems obtain c1 where
      r: "rec (g_entities g) (''G-'' @ g_name g) (mat_mul t (g_transform g))
            (inherent_default_mat (g_material g) dm) ET_group cs None = Inr c1"
      and rest: "ae_groups rec self t dm gs c1 = Inr cs'"
      by (auto split: sum.splits)
    from rec [OF r] Cons.IH [OF rest] show ?thesis by (rule stats_le_trans)
  qed
qed

lemma ae_instances_mono:
  assumes rec: "\<And>e nm t d et c sk c'. rec e nm t d et c sk = Inr c' \<Longrightarrow> stats_le c c'"
  shows "ae_instances rec self t dm sl insts cs = Inr cs' \<Longrightarrow> stats_le cs cs'"
proof (induction insts arbitrary: cs)
  case Nil
  then show ?case by (simp add: stats_le_refl)
next
  case (Cons i insts)
  show ?case
  proof (cases "layers_skip self \<noteq> [] \<and> i_layer i \<in> set (layers_skip self)")
    case True
    with Cons show ?thesis by simp
  next
    case False
    note nl = False
    from Cons.prems nl obtain cdef where
      cdef: "proxy_getitem (skp_components self) (i_definition_name i) = Some cdef"
      by (auto simp: Let_def split: option.splits)
    show ?thesis
    proof (cases "(cd_name cdef, inherent_default_mat (i_material i) dm) \<in> set sl")
      case True
      with Cons nl cdef show ?thesis by (simp add: Let_def)
    next
      case False
      with Cons.prems nl cdef obtain c1 where
        r: "rec (cd_entities cdef) (cd_name cdef) (mat_mul t (i_transform i))
              (inherent_default_mat (i_material i) dm) ET_component cs None = Inr c1"
        and rest: "ae_instances rec self t dm sl insts c1 = Inr cs'"
        by (auto simp: Let_def split: sum.splits)
      from rec [OF r] Cons.IH [OF rest] show ?thesis by (rule stats_le_trans)
    qed
  qed
qed

lemma analyze_entities_mono:
  "analyze_entities n self e nm t dm et cs sk = Inr cs' \<Longrightarrow> stats_le cs cs'"
proof (induction n arbitrary: e nm t dm et cs sk cs')
  case 0
  then show ?case by simp
next
  case (Suc n)
  let ?c1 = "if et = ET_component then dd_append (nm, dm) t cs else cs"
  from Suc.prems obtain c2 where
    g: "ae_groups (analyze_entities n self) self t dm (groups e) ?c1 = Inr c2"
    and i: "ae_instances (analyze_entities n self) self t dm
              (case sk of None \<Rightarrow> [] | Some l \<Rightarrow> l) (instances e) c2 = Inr cs'"
    by (auto simp: analyze_entities_body_def Let_def split: sum.splits)
  have "stats_le cs ?c1" by (simp add: stats_le_refl stats_le_append)
  moreover from ae_groups_mono [OF Suc.IH g] have "stats_le ?c1 c2" .
  moreover from ae_instances_mono [OF Suc.IH i] have "stats_le c2 cs'" .
  ultimately show ?case by (blast intro: stats_le_trans)
qed

lemma analyze_entities_records:
  assumes "analyze_entities n self e nm t dm ET_component cs sk = Inr cs'"
  shows "t \<in> set (dd_getitem cs' (nm, dm))"
proof -
  from assms obtain m where n: "n = Suc m" by (cases n) auto
  let ?c1 = "dd_append (nm, dm) t cs"
  from assms n obtain c2 where
    g: "ae_groups (analyze_entities m self) self t dm (groups e) ?c1 = Inr c2"
    and i: "ae_instances (analyze_entities m self) self t dm
              (case sk of None \<Rightarrow> [] | Some l \<Rightarrow> l) (instances e) c2 = Inr cs'"
    by (auto simp: analyze_entities_body_def Let_def split: sum.splits)
  from ae_groups_mono [OF analyze_entities_mono g] ae_instances_mono [OF analyze_entities_mono i]
  have "stats_le ?c1 cs'" by (rule stats_le_trans)
  then have "prefix (dd_getitem ?c1 (nm, dm)) (dd_getitem cs' (nm, dm))"
    by (simp add: stats_le_def)
  then have "set (dd_getitem ?c1 (nm, dm)) \<subseteq> set (dd_getitem cs' (nm, dm))"
    by (rule set_mono_prefix)
  then show ?thesis by (auto simp: dd_getitem_append_same)
qed

lemma ae_groups_hidden:
  "ae_groups rec self t dm (gs1 @ g_set_hidden h g # gs2) cs
     = ae_groups rec self t dm (gs1 @ g # gs2) cs"
  by (cases "ae_groups rec self t dm gs1 cs") (simp_all add: ae_groups_append g_set_hidden_def)

lemma ae_instances_hidden:
  "ae_instances rec self t dm sl (is1 @ inst\<lparr>i_hidden := h\<rparr> # is2) cs
     = ae_instances rec self t dm sl (is1 @ inst # is2) cs"
  by (cases "ae_instances rec self t dm sl is1 cs")
     (simp_all add: ae_instances_append Let_def split: option.splits)


text \<open>
  C10. The flag \<open>hidden\<close> of a group or an instance is read by the write pass
  alone. The analysis gives the same statistics whether the flag of a group
  or of an instance is set or not; for an instance that is flagged hidden, on a
  layer that is not hidden, whose definition is known, every analysis that
  returns has entered the composed transform of the instance under the name of
  its definition and its effective material. The two loops of the write pass
  leave the same session with the flagged node and without it.
\<close>

theorem hidden_flag_asymmetry:
  assumes gh: "g_hidden g" and ih: "i_hidden inst"
    and il: "i_layer inst \<notin> set (layers_skip self)"
    and cdef: "proxy_getitem (skp_components self) (i_definition_name inst) = Some cdef"
  shows "analyze_entities n self (Entities (gs1 @ g # gs2) insts fs) name t dm et cs sk
           = analyze_entities n self (Entities (gs1 @ g_set_hidden False g # gs2) insts fs)
               name t dm et cs sk
       \<and> analyze_entities n self (Entities gs (is1 @ inst # is2) fs) name t dm et cs sk
           = analyze_entities n self (Entities gs (is1 @ inst\<lparr>i_hidden := False\<rparr> # is2) fs)
               name t dm et cs sk
       \<and> (\<forall>cs'. analyze_entities n self (Entities gs (is1 @ inst # is2) fs) name t dm et cs
                   None = Inr cs'
              \<longrightarrow> mat_mul t (i_transform inst)
                    \<in> set (dd_getitem cs'
                             (cd_name cdef, inherent_default_mat (i_material inst) dm)))
       \<and> we_groups (write_entities n X) X pt dm ob nl (gs1 @ g # gs2) self
           = we_groups (write_entities n X) X pt dm ob nl (gs1 @ gs2) self
       \<and> we_instances (write_entities n X) X pt dm ob nl (is1 @ inst # is2) self
           = we_instances (write_entities n X) X pt dm ob nl (is1 @ is2) self"
proof (intro conjI allI impI)
  show "analyze_entities n self (Entities (gs1 @ g # gs2) insts fs) name t dm et cs sk
           = analyze_entities n self (Entities (gs1 @ g_set_hidden False g # gs2) insts fs)
               name t dm et cs sk"
    by (cases n) (simp_all add: analyze_entities_body_def ae_groups_hidden
          cong: sum.case_cong)
  show "analyze_entities n self (Entities gs (is1 @ inst # is2) fs) name t dm et cs sk
           = analyze_entities n self (Entities gs (is1 @ inst\<lparr>i_hidden := False\<rparr> # is2) fs)
               name t dm et cs sk"
    by (cases n) (simp_all add: analyze_entities_body_def ae_instances_hidden
          cong: sum.case_cong)
  show "we_groups (write_entities n X) X pt dm ob nl (gs1 @ g # gs2) self
           = we_groups (write_entities n X) X pt dm ob nl (gs1 @ gs2) self"
    using gh by (simp add: we_groups_append cong: sum.case_cong)
  show "we_instances (write_entities n X) X pt dm ob nl (is1 @ inst # is2) self
           = we_instances (write_entities n X) X pt dm ob nl (is1 @ is2) self"
    using ih by (simp add: we_instances_append cong: sum.case_cong)
next
  fix cs'
  assume a: "analyze_entities n self (Entities gs (is1 @ inst # is2) fs) name t dm et cs None
               = Inr cs'"
  then obtain m where n: "n = Suc m" by (cases n) auto
  let ?rec = "analyze_entities m self"
  let ?mat = "inherent_default_mat (i_material inst) dm"
  from a n obtain c2 where
    i: "ae_instances ?rec self t dm [] (is1 @ inst # is2) c2 = Inr cs'"
    by (auto simp: analyze_entities_body_def Let_def split: sum.splits)
  then obtain c3 where
    i2: "ae_instances ?rec self t dm [] (inst # is2) c3 = Inr cs'"
    by (auto simp: ae_instances_append split: sum.splits)
  with il cdef obtain c4 where
    r: "?rec (cd_entities cdef) (cd_name cdef) (mat_mul t (i_transform inst)) ?mat
          ET_component c3 None = Inr c4"
    and rest: "ae_instances ?rec self t dm [] is2 c4 = Inr cs'"
    by (auto simp: Let_def split: sum.splits)
  from analyze_entities_records [OF r]
  have "mat_mul t (i_transform inst) \<in> set (dd_getitem c4 (cd_name cdef, ?mat))" .
  moreover from ae_instances_mono [OF analyze_entities_mono rest]
  have "prefix (dd_getitem c4 (cd_name cdef, ?mat)) (dd_getitem cs' (cd_name cdef, ?mat))"
    by (simp add: stats_le_def)
  ultimately show "mat_mul t (i_transform inst)
      \<in> set (dd_getitem cs' (cd_name cdef, ?mat))"
    using set_mono_prefix by blast
qed


theorem hidden_flag_asymmetry_witness:
  "g_hidden ex_flagged_group \<and> i_hidden ex_flagged_instance
   \<and> i_layer ex_flagged_instance \<notin> set (layers_skip ex_self)
   \<and> proxy_getitem (skp_components ex_self) (i_definition_name ex_flagged_instance)
       = Some \<lparr>cd_name = ''Chair'', cd_entities = ex_chair\<rparr>
   \<and> analyze_entities 2 ex_self (Entities [] ([] @ ex_flagged_instance # []) [])
         ''Sketchup'' mat_identity ''Material'' ET_none [] None
       = Inr [((''Chair'', ''Material''), [mat_mul mat_identity (ex_translate 1)])]
   \<and> mat_mul mat_identity (i_transform ex_flagged_instance)
       \<in> set (dd_getitem [((''Chair'', ''Material''), [mat_mul mat_identity (ex_translate 1)])]
                (cd_name \<lparr>cd_name = ''Chair'', cd_entities = ex_chair\<rparr>,
                 inherent_default_mat (i_material ex_flagged_instance) ''Material''))"
proof -
  have gh: "g_hidden ex_flagged_group" by (simp add: ex_flagged_group_def)
  have ih: "i_hidden ex_flagged_instance"
    by (simp add: ex_flagged_instance_def ex_instance_def)
  have il: "i_layer ex_flagged_instance \<notin> set (layers_skip ex_self)"
    by (simp add: ex_self_def)
  have cdef: "proxy_getitem (skp_components ex_self) (i_definition_name ex_flagged_instance)
       = Some \<lparr>cd_name = ''Chair'', cd_entities = ex_chair\<rparr>"
    by (simp add: ex_self_def ex_flagged_instance_def ex_instance_def proxy_getitem_def)
  have run: "analyze_entities 2 ex_self (Entities [] ([] @ ex_flagged_instance # []) [])
         ''Sketchup'' mat_identity ''Material'' ET_none [] None
       = Inr [((''Chair'', ''Material''), [mat_mul mat_identity (ex_translate 1)])]"
    by (simp add: numeral_2_eq_2 analyze_entities_body_def Let_def proxy_getitem_def
          ex_self_fields inherent_default_mat_def ex_flagged_instance_def ex_instance_def
          ex_chair_def)
  from hidden_flag_asymmetry [OF gh ih il cdef, of 2 "[]" "[]" "[]" "[]" "''Sketchup''"
      mat_identity "''Material''" ET_none "[]" None "[]" "[]" "[]" ex_X mat_identity
      "''Root''" "(0, 0, 0)"] run
  show ?thesis using gh ih il cdef by blast
qed

end
